theory Spec2Isabelle
  imports Main "HOL-Library.Word"
begin

section \<open>Python values, exceptions and the outside world\<close>

text \<open>
  The two scripts \<^verbatim>\<open>scripts/embed_watermark.py\<close> and \<^verbatim>\<open>scripts/detect_watermark.py\<close>
  are single functions \<^verbatim>\<open>main()\<close> that parse one JSON argument, call into OpenCV and
  the \<^verbatim>\<open>imwatermark\<close> library, print one JSON object and exit.

  Values produced by \<^verbatim>\<open>json.loads\<close> are modelled by the datatype \<open>json\<close>. A Python
  \<^verbatim>\<open>str\<close> is a \<open>string\<close> (a character outside ASCII is its UTF-8 bytes, all from 128
  on); a \<^verbatim>\<open>dict\<close> is an association list read with \<open>map_of\<close>
  (the dictionaries built by \<^verbatim>\<open>json.loads\<close> have distinct keys); an \<^verbatim>\<open>int\<close> is an
  unbounded \<open>int\<close>; a \<^verbatim>\<open>float\<close> is kept as its 64 bits and never inspected.
\<close>

type_synonym byte = "8 word"

type_synonym pyfloat = "64 word"

datatype json =
    JNull
  | JBool bool
  | JInt int
  | JFloat pyfloat
  | JStr string
  | JArr "json list"
  | JObj "(string \<times> json) list"

text \<open>
  An exception object: the name of its class and the text \<^verbatim>\<open>str(e)\<close>. Only instances
  of (subclasses of) \<^verbatim>\<open>Exception\<close> are modelled as values of this type; \<^verbatim>\<open>SystemExit\<close>,
  which \<^verbatim>\<open>except Exception\<close> does not catch, is the separate constructor \<open>SysExit\<close>
  of \<open>abort\<close> below.
\<close>

datatype py_exception = PyExc (exc_class: string) (exc_str: string)

datatype abort = Raise py_exception | SysExit int

datatype imwrite_flag = IMWRITE_JPEG_QUALITY | IMWRITE_PNG_COMPRESSION | IMWRITE_WEBP_QUALITY

text \<open>
  Everything the scripts call but do not define is a field of the environment: the JSON
  parser, the import machinery, \<^verbatim>\<open>str()\<close> on non-string values, float multiplication,
  \<^verbatim>\<open>cv2.imread\<close> (which returns \<^verbatim>\<open>None\<close> when it cannot load), \<^verbatim>\<open>cv2.imwrite\<close>
  (which returns a \<^verbatim>\<open>bool\<close>), and the encoder and decoder objects of \<^verbatim>\<open>imwatermark\<close>.
  Each call either raises (\<open>Inl\<close>, or \<open>Some\<close> for a call without result) or returns.
  The encoder object keeps the watermark given to \<^verbatim>\<open>set_watermark\<close>, the decoder object
  keeps its constructor arguments; the model passes them to \<open>wm_encode\<close> and
  \<open>wm_decode\<close> explicitly. The image buffer type \<open>'img\<close> is opaque.
\<close>

record 'img env =
  json_loads :: "string \<Rightarrow> py_exception + json"
  py_import :: "string \<Rightarrow> py_exception option"
  py_str :: "json \<Rightarrow> string"
  float_mul :: "pyfloat \<Rightarrow> int \<Rightarrow> pyfloat"
  imread :: "json \<Rightarrow> py_exception + 'img option"
  imwrite :: "json \<Rightarrow> 'img \<Rightarrow> (imwrite_flag \<times> json) list \<Rightarrow> py_exception + bool"
  new_encoder :: "py_exception option"
  set_watermark :: "string \<Rightarrow> byte list \<Rightarrow> py_exception option"
  wm_encode :: "string \<times> byte list \<Rightarrow> 'img \<Rightarrow> string \<Rightarrow> py_exception + 'img"
  new_decoder :: "string \<Rightarrow> json \<Rightarrow> py_exception option"
  wm_decode :: "string \<times> json \<Rightarrow> 'img \<Rightarrow> string \<Rightarrow> py_exception + byte list"

text \<open>
  What an invocation does to the outside world, in order: the lines it prints and the
  library calls it makes, with their arguments. \<open>Encode\<close> and \<open>Decode\<close> carry first
  the state of the object they are called on, as set up by the preceding
  \<open>SetWatermark\<close> or \<open>NewDecoder\<close>.
\<close>

datatype 'img event =
    Print json
  | ImRead json
  | NewEncoder
  | SetWatermark string "byte list"
  | Encode "string \<times> byte list" 'img string
  | ImWrite json 'img "(imwrite_flag \<times> json) list"
  | NewDecoder string json
  | Decode "string \<times> json" 'img string

type_synonym ('img, 'a) run = "'img event list \<times> (abort + 'a)"

text \<open>
  Sequencing of statements: the second statement runs only when the first one returned,
  and the events of both are kept in order.
\<close>

definition andthen :: "('img, 'a) run \<Rightarrow> ('a \<Rightarrow> ('img, 'b) run) \<Rightarrow> ('img, 'b) run" where
  "andthen m f =
     (case m of
        (tr, Inl a) \<Rightarrow> (tr, Inl a)
      | (tr, Inr x) \<Rightarrow> (case f x of (tr', r) \<Rightarrow> (tr @ tr', r)))"

definition raising :: "py_exception + 'a \<Rightarrow> abort + 'a" where
  "raising r = (case r of Inl e \<Rightarrow> Inl (Raise e) | Inr x \<Rightarrow> Inr x)"

definition raising_opt :: "py_exception option \<Rightarrow> abort + unit" where
  "raising_opt r = (case r of Some e \<Rightarrow> Inl (Raise e) | None \<Rightarrow> Inr ())"

text \<open>An expression without outside effect, a library call with a result, a library
  call without one, \<^verbatim>\<open>print(json.dumps(v))\<close> and \<^verbatim>\<open>sys.exit(n)\<close>.\<close>

definition expr :: "py_exception + 'a \<Rightarrow> ('img, 'a) run" where
  "expr r = ([], raising r)"

definition stmt :: "py_exception option \<Rightarrow> ('img, unit) run" where
  "stmt r = ([], raising_opt r)"

definition call :: "'img event \<Rightarrow> py_exception + 'a \<Rightarrow> ('img, 'a) run" where
  "call ev r = ([ev], raising r)"

definition call_stmt :: "'img event \<Rightarrow> py_exception option \<Rightarrow> ('img, unit) run" where
  "call_stmt ev r = ([ev], raising_opt r)"

definition print_json :: "json \<Rightarrow> ('img, unit) run" where
  "print_json v = ([Print v], Inr ())"

definition sys_exit :: "int \<Rightarrow> ('img, 'a) run" where
  "sys_exit n = ([], Inl (SysExit n))"

section \<open>Built-in operations of Python used by the scripts\<close>

definition type_name :: "json \<Rightarrow> string" where
  "type_name v =
     (case v of
        JNull \<Rightarrow> ''NoneType'' | JBool _ \<Rightarrow> ''bool'' | JInt _ \<Rightarrow> ''int''
      | JFloat _ \<Rightarrow> ''float'' | JStr _ \<Rightarrow> ''str'' | JArr _ \<Rightarrow> ''list''
      | JObj _ \<Rightarrow> ''dict'')"

definition quoted :: "string \<Rightarrow> string" where
  "quoted s = [CHR 0x27] @ s @ [CHR 0x27]"

text \<open>\<^verbatim>\<open>sys.argv[i]\<close>: an index past the end raises \<^verbatim>\<open>IndexError\<close>.\<close>

definition list_index :: "'a list \<Rightarrow> nat \<Rightarrow> py_exception + 'a" where
  "list_index xs i =
     (if i < length xs then Inr (xs ! i)
      else Inl (PyExc ''IndexError'' ''list index out of range''))"

text \<open>\<^verbatim>\<open>args[key]\<close> with a string key: only a \<^verbatim>\<open>dict\<close> can answer; a missing key
  raises \<^verbatim>\<open>KeyError\<close>, whose text is the quoted key.\<close>

definition py_getitem :: "json \<Rightarrow> string \<Rightarrow> py_exception + json" where
  "py_getitem v key =
     (case v of
        JObj kvs \<Rightarrow>
          (case map_of kvs key of
             Some x \<Rightarrow> Inr x
           | None \<Rightarrow> Inl (PyExc ''KeyError'' (quoted key)))
      | JArr _ \<Rightarrow> Inl (PyExc ''TypeError'' ''list indices must be integers or slices, not str'')
      | JStr _ \<Rightarrow>
          Inl (PyExc ''TypeError'' (''string indices must be integers, not '' @ quoted ''str''))
      | _ \<Rightarrow> Inl (PyExc ''TypeError'' (quoted (type_name v) @ '' object is not subscriptable'')))"

text \<open>\<^verbatim>\<open>args.get(key, default)\<close>.\<close>

definition py_get :: "json \<Rightarrow> string \<Rightarrow> json \<Rightarrow> py_exception + json" where
  "py_get v key dflt =
     (case v of
        JObj kvs \<Rightarrow> Inr (case map_of kvs key of Some x \<Rightarrow> x | None \<Rightarrow> dflt)
      | _ \<Rightarrow> Inl (PyExc ''AttributeError''
                 (quoted (type_name v) @ '' object has no attribute '' @ quoted ''get'')))"

text \<open>The replacement field \<^verbatim>\<open>{input_path}\<close> of an f-string: a \<^verbatim>\<open>str\<close> is inserted as
  it is, any other value through \<^verbatim>\<open>str()\<close>.\<close>

definition py_format :: "'img env \<Rightarrow> json \<Rightarrow> string" where
  "py_format env v = (case v of JStr s \<Rightarrow> s | _ \<Rightarrow> py_str env v)"

text \<open>
  \<^verbatim>\<open>payload_length * 8\<close>: integer product for \<^verbatim>\<open>int\<close> and \<^verbatim>\<open>bool\<close>, float product for
  \<^verbatim>\<open>float\<close>, repetition for \<^verbatim>\<open>str\<close> and \<^verbatim>\<open>list\<close>, \<^verbatim>\<open>TypeError\<close> otherwise.
\<close>

definition py_mul :: "'img env \<Rightarrow> json \<Rightarrow> int \<Rightarrow> py_exception + json" where
  "py_mul env v k =
     (case v of
        JInt n \<Rightarrow> Inr (JInt (n * k))
      | JBool b \<Rightarrow> Inr (JInt ((if b then 1 else 0) * k))
      | JFloat x \<Rightarrow> Inr (JFloat (float_mul env x k))
      | JStr s \<Rightarrow> Inr (JStr (concat (replicate (nat k) s)))
      | JArr xs \<Rightarrow> Inr (JArr (concat (replicate (nat k) xs)))
      | _ \<Rightarrow> Inl (PyExc ''TypeError''
                 (''unsupported operand type(s) for *: '' @ quoted (type_name v)
                  @ '' and '' @ quoted ''int'')))"

subsection \<open>Strings: \<^verbatim>\<open>lower\<close> and \<^verbatim>\<open>endswith\<close>\<close>

text \<open>
  \<^verbatim>\<open>str.lower()\<close> on the letters \<^verbatim>\<open>A\<close> to \<^verbatim>\<open>Z\<close>; every other character is left as it
  is. (Python also lowers letters outside ASCII; none of them becomes a character of the
  suffixes tested below, so the tests are not affected.)
\<close>

definition lower_char :: "char \<Rightarrow> char" where
  "lower_char c =
     (if 65 \<le> (of_char c :: nat) \<and> (of_char c :: nat) \<le> 90
      then char_of (of_char c + (32 :: nat)) else c)"

definition lower :: "string \<Rightarrow> string" where
  "lower s = map lower_char s"

definition endswith :: "string \<Rightarrow> string \<Rightarrow> bool" where
  "endswith s suf \<longleftrightarrow> length suf \<le> length s \<and> drop (length s - length suf) s = suf"

definition py_lower :: "json \<Rightarrow> py_exception + string" where
  "py_lower v =
     (case v of
        JStr s \<Rightarrow> Inr (lower s)
      | _ \<Rightarrow> Inl (PyExc ''AttributeError''
                 (quoted (type_name v) @ '' object has no attribute '' @ quoted ''lower'')))"

subsection \<open>Bytes: \<^verbatim>\<open>bytes.fromhex\<close> and \<^verbatim>\<open>bytes.hex\<close>\<close>

definition hex_digit :: "char \<Rightarrow> nat option" where
  "hex_digit c =
     (let n = (of_char c :: nat) in
      if 48 \<le> n \<and> n \<le> 57 then Some (n - 48)
      else if 97 \<le> n \<and> n \<le> 102 then Some (n - 87)
      else if 65 \<le> n \<and> n \<le> 70 then Some (n - 55)
      else None)"

text \<open>ASCII whitespace: space, tab, line feed, vertical tab, form feed, carriage return.\<close>

definition is_space :: "char \<Rightarrow> bool" where
  "is_space c \<longleftrightarrow> (of_char c :: nat) = 32 \<or> (9 \<le> (of_char c :: nat) \<and> (of_char c :: nat) \<le> 13)"

text \<open>The decimal text of a number.\<close>

fun decimal :: "nat \<Rightarrow> string" where
  "decimal n =
     (if n < 10 then [char_of (48 + n)]
      else decimal (n div 10) @ [char_of (48 + n mod 10)])"

declare decimal.simps [simp del]

text \<open>The \<^verbatim>\<open>ValueError\<close> of \<^verbatim>\<open>bytes.fromhex\<close>, which names the index of the offending
  character (the length of the string when a second digit is missing at its end).\<close>

definition fromhex_error :: "nat \<Rightarrow> py_exception" where
  "fromhex_error pos =
     PyExc ''ValueError''
       (''non-hexadecimal number found in fromhex() arg at position '' @ decimal pos)"

text \<open>The index of the first character outside ASCII, counting from \<open>i\<close>.\<close>

fun first_non_ascii :: "nat \<Rightarrow> string \<Rightarrow> nat option" where
  "first_non_ascii i [] = None"
| "first_non_ascii i (c # cs) =
     (if 128 \<le> (of_char c :: nat) then Some i else first_non_ascii (i + 1) cs)"

text \<open>
  The scan of \<^verbatim>\<open>bytes.fromhex\<close> over an ASCII string, the first character having index
  \<open>i\<close>: two hexadecimal digits of either case per byte, ASCII whitespace skipped between
  bytes (not between the two digits of a byte), \<^verbatim>\<open>ValueError\<close> at the first character
  that is neither.
\<close>

fun fromhex_from :: "nat \<Rightarrow> string \<Rightarrow> py_exception + byte list" where
  "fromhex_from i [] = Inr []"
| "fromhex_from i [c] =
     (if is_space c then Inr []
      else
        (case hex_digit c of
           None \<Rightarrow> Inl (fromhex_error i)
         | Some _ \<Rightarrow> Inl (fromhex_error (i + 1))))"
| "fromhex_from i (c # d # cs) =
     (if is_space c then fromhex_from (i + 1) (d # cs)
      else
        (case hex_digit c of
           None \<Rightarrow> Inl (fromhex_error i)
         | Some hi \<Rightarrow>
             (case hex_digit d of
                None \<Rightarrow> Inl (fromhex_error (i + 1))
              | Some lo \<Rightarrow>
                  (case fromhex_from (i + 2) cs of
                     Inl e \<Rightarrow> Inl e
                   | Inr bs \<Rightarrow> Inr (of_nat (hi * 16 + lo) # bs)))))"

text \<open>
  \<^verbatim>\<open>bytes.fromhex(s)\<close>, as in CPython 3.11: a string with a character outside ASCII is
  refused at the first such character, any other string is scanned from index 0.
\<close>

definition fromhex :: "string \<Rightarrow> py_exception + byte list" where
  "fromhex s =
     (case first_non_ascii 0 s of
        Some i \<Rightarrow> Inl (fromhex_error i)
      | None \<Rightarrow> fromhex_from 0 s)"

text \<open>\<^verbatim>\<open>bytes.fromhex(payload_hex)\<close> on any value: only a \<^verbatim>\<open>str\<close> is accepted; the
  \<^verbatim>\<open>TypeError\<close> names the type of the argument, and \<^verbatim>\<open>None\<close> itself for \<^verbatim>\<open>None\<close>.\<close>

definition bytes_fromhex :: "json \<Rightarrow> py_exception + byte list" where
  "bytes_fromhex v =
     (case v of
        JStr s \<Rightarrow> fromhex s
      | JNull \<Rightarrow> Inl (PyExc ''TypeError'' ''fromhex() argument must be str, not None'')
      | _ \<Rightarrow> Inl (PyExc ''TypeError'' (''fromhex() argument must be str, not '' @ type_name v)))"

definition hex_char :: "nat \<Rightarrow> char" where
  "hex_char n = ''0123456789abcdef'' ! n"

text \<open>\<^verbatim>\<open>payload.hex()\<close>: two lower-case digits per byte.\<close>

definition hex :: "byte list \<Rightarrow> string" where
  "hex bs = concat (map (\<lambda>b. [hex_char (unat b div 16), hex_char (unat b mod 16)]) bs)"

section \<open>The two scripts\<close>

definition ok_object :: json where
  "ok_object = JObj [(''status'', JStr ''ok'')]"

definition ok_payload_object :: "string \<Rightarrow> json" where
  "ok_payload_object h = JObj [(''status'', JStr ''ok''), (''payload_hex'', JStr h)]"

definition error_object :: "string \<Rightarrow> json" where
  "error_object msg = JObj [(''status'', JStr ''error''), (''message'', JStr msg)]"

text \<open>Lines 32 to 40 of \<^verbatim>\<open>embed_watermark.py\<close>: the options given to \<^verbatim>\<open>cv2.imwrite\<close>
  are chosen from the end of the lower-cased output path (the first argument here).\<close>

definition write_options :: "string \<Rightarrow> json \<Rightarrow> (imwrite_flag \<times> json) list" where
  "write_options lowered jpeg_quality =
     (if endswith lowered ''.jpg'' \<or> endswith lowered ''.jpeg''
      then [(IMWRITE_JPEG_QUALITY, jpeg_quality)]
      else if endswith lowered ''.png''
      then [(IMWRITE_PNG_COMPRESSION, JInt 3)]
      else if endswith lowered ''.webp''
      then [(IMWRITE_WEBP_QUALITY, jpeg_quality)]
      else [])"

text \<open>\<^verbatim>\<open>output_path.lower()\<close> raises unless the path is a \<^verbatim>\<open>str\<close>. The value returned
  by \<^verbatim>\<open>cv2.imwrite\<close> is not looked at.\<close>

definition write_output :: "'img env \<Rightarrow> json \<Rightarrow> 'img \<Rightarrow> json \<Rightarrow> ('img, unit) run" where
  "write_output env output_path watermarked jpeg_quality =
     andthen (expr (py_lower output_path)) (\<lambda>lowered.
     andthen (call (ImWrite output_path watermarked (write_options lowered jpeg_quality))
                (imwrite env output_path watermarked (write_options lowered jpeg_quality)))
       (\<lambda>_. ([], Inr ())))"

text \<open>The body of the \<^verbatim>\<open>try\<close> block of \<^verbatim>\<open>embed_watermark.py\<close>, lines 12 to 42.\<close>

definition embed_try :: "'img env \<Rightarrow> string list \<Rightarrow> ('img, unit) run" where
  "embed_try env argv =
     andthen (expr (list_index argv 1)) (\<lambda>arg.
     andthen (expr (json_loads env arg)) (\<lambda>args.
     andthen (expr (py_getitem args ''input_path'')) (\<lambda>input_path.
     andthen (expr (py_getitem args ''output_path'')) (\<lambda>output_path.
     andthen (expr (py_getitem args ''payload_hex'')) (\<lambda>payload_hex.
     andthen (expr (py_get args ''jpeg_quality'' (JInt 92))) (\<lambda>jpeg_quality.
     andthen (stmt (py_import env ''cv2'')) (\<lambda>_.
     andthen (stmt (py_import env ''imwatermark.WatermarkEncoder'')) (\<lambda>_.
     andthen (call (ImRead input_path) (imread env input_path)) (\<lambda>img_opt.
       (case img_opt of
          None \<Rightarrow>
            andthen (print_json (error_object
                       (''Failed to read image: '' @ py_format env input_path)))
              (\<lambda>_. sys_exit 1)
        | Some img \<Rightarrow>
            andthen (expr (bytes_fromhex payload_hex)) (\<lambda>payload_bytes.
            andthen (call_stmt NewEncoder (new_encoder env)) (\<lambda>_.
            andthen (call_stmt (SetWatermark ''bytes'' payload_bytes)
                       (set_watermark env ''bytes'' payload_bytes)) (\<lambda>_.
            andthen (call (Encode (''bytes'', payload_bytes) img ''dwtDctSvd'')
                       (wm_encode env (''bytes'', payload_bytes) img ''dwtDctSvd''))
              (\<lambda>watermarked.
            andthen (write_output env output_path watermarked jpeg_quality) (\<lambda>_.
            print_json ok_object)))))))))))))))"

text \<open>
  \<^verbatim>\<open>main()\<close>: the \<^verbatim>\<open>try\<close> block, and the handler \<^verbatim>\<open>except Exception as e\<close> that prints
  the error object with \<^verbatim>\<open>str(e)\<close> and exits with 1. \<^verbatim>\<open>sys.exit\<close> inside the block is
  not caught. The result is the sequence of events and the exit code of the process.
\<close>

definition handler :: "('img, unit) run \<Rightarrow> 'img event list \<times> int" where
  "handler r =
     (case r of
        (tr, Inr _) \<Rightarrow> (tr, 0)
      | (tr, Inl (SysExit n)) \<Rightarrow> (tr, n)
      | (tr, Inl (Raise e)) \<Rightarrow> (tr @ [Print (error_object (exc_str e))], 1))"

definition main_embed :: "'img env \<Rightarrow> string list \<Rightarrow> 'img event list \<times> int" where
  "main_embed env argv = handler (embed_try env argv)"

text \<open>The body of the \<^verbatim>\<open>try\<close> block of \<^verbatim>\<open>detect_watermark.py\<close>, lines 13 to 29.\<close>

definition detect_try :: "'img env \<Rightarrow> string list \<Rightarrow> ('img, unit) run" where
  "detect_try env argv =
     andthen (expr (list_index argv 1)) (\<lambda>arg.
     andthen (expr (json_loads env arg)) (\<lambda>args.
     andthen (expr (py_getitem args ''input_path'')) (\<lambda>input_path.
     andthen (expr (py_get args ''payload_length'' (JInt 16))) (\<lambda>payload_length.
     andthen (stmt (py_import env ''cv2'')) (\<lambda>_.
     andthen (stmt (py_import env ''imwatermark.WatermarkDecoder'')) (\<lambda>_.
     andthen (call (ImRead input_path) (imread env input_path)) (\<lambda>img_opt.
       (case img_opt of
          None \<Rightarrow>
            andthen (print_json (error_object
                       (''Failed to read image: '' @ py_format env input_path)))
              (\<lambda>_. sys_exit 1)
        | Some img \<Rightarrow>
            andthen (expr (py_mul env payload_length 8)) (\<lambda>bits.
            andthen (call_stmt (NewDecoder ''bytes'' bits) (new_decoder env ''bytes'' bits)) (\<lambda>_.
            andthen (call (Decode (''bytes'', bits) img ''dwtDctSvd'')
                       (wm_decode env (''bytes'', bits) img ''dwtDctSvd'')) (\<lambda>payload.
            print_json (ok_payload_object (hex payload)))))))))))))"

definition main_detect :: "'img env \<Rightarrow> string list \<Rightarrow> 'img event list \<times> int" where
  "main_detect env argv = handler (detect_try env argv)"

text \<open>What was printed, and what was written, during a run.\<close>

fun printed :: "'img event \<Rightarrow> json option" where
  "printed (Print v) = Some v"
| "printed _ = None"

definition stdout :: "'img event list \<Rightarrow> json list" where
  "stdout tr = List.map_filter printed tr"

fun is_write :: "'img event \<Rightarrow> bool" where
  "is_write (ImWrite _ _ _) = True"
| "is_write _ = False"

section \<open>The specification's dispatch table\<close>

text \<open>
  The specification selects the encoding profile from the extension of the output path,
  compared without regard to case. The extension of a path is the text from its last
  dot on (empty when there is no dot); the table is that of the specification:
  \<^verbatim>\<open>.jpg\<close> and \<^verbatim>\<open>.jpeg\<close> take the configured quality, \<^verbatim>\<open>.png\<close> the fixed compression
  level 3, \<^verbatim>\<open>.webp\<close> the configured quality, anything else no option.
\<close>

definition spec_extension :: "string \<Rightarrow> string" where
  "spec_extension path =
     (if CHR ''.'' \<in> set path
      then CHR ''.'' # rev (takeWhile (\<lambda>c. c \<noteq> CHR ''.'') (rev path))
      else [])"

definition spec_encoding_options :: "string \<Rightarrow> json \<Rightarrow> (imwrite_flag \<times> json) list" where
  "spec_encoding_options ext quality =
     (if ext = ''.jpg'' \<or> ext = ''.jpeg'' then [(IMWRITE_JPEG_QUALITY, quality)]
      else if ext = ''.png'' then [(IMWRITE_PNG_COMPRESSION, JInt 3)]
      else if ext = ''.webp'' then [(IMWRITE_WEBP_QUALITY, quality)]
      else [])"

section \<open>A concrete environment for worked examples\<close>

text \<open>
  A small world in which the scripts can be run: a parser that knows a handful of
  argument strings, two readable images \<^verbatim>\<open>a.png\<close> and \<^verbatim>\<open>b.png\<close>, a codec that writes
  everywhere except below \<^verbatim>\<open>/nonexistent\<close>, where \<^verbatim>\<open>cv2.imwrite\<close> returns \<^verbatim>\<open>False\<close>,
  and a watermark library that always answers. Images are numbers here.
\<close>

definition embed_arg :: string where
  \<open>embed_arg =
     ''{"input_path": "a.png", "output_path": "b.png", "payload_hex": "48656c6c6f21202020"}''\<close>

definition embed_jpg_arg :: string where
  \<open>embed_jpg_arg =
     ''{"input_path": "a.png", "output_path": "OUT.JPG", "payload_hex": "48656C6c"}''\<close>

definition embed_missing_arg :: string where
  \<open>embed_missing_arg =
     ''{"input_path": "missing.png", "output_path": "b.png", "payload_hex": "00"}''\<close>

definition embed_unwritable_arg :: string where
  \<open>embed_unwritable_arg =
     ''{"input_path": "a.png", "output_path": "/nonexistent/b.png", "payload_hex": "48656c6c6f21202020"}''\<close>

definition detect_arg :: string where
  \<open>detect_arg = ''{"input_path": "b.png"}''\<close>

definition detect_len_arg :: string where
  \<open>detect_len_arg = ''{"input_path": "b.png", "payload_length": 9}''\<close>

definition detect_16_arg :: string where
  \<open>detect_16_arg = ''{"input_path": "b.png", "payload_length": 16}''\<close>

definition detect_missing_arg :: string where
  \<open>detect_missing_arg = ''{"input_path": "missing.png"}''\<close>

definition sample_table :: "(string \<times> json) list" where
  "sample_table =
     [(embed_arg,
        JObj [(''input_path'', JStr ''a.png''), (''output_path'', JStr ''b.png''),
              (''payload_hex'', JStr ''48656c6c6f21202020'')]),
      (embed_jpg_arg,
        JObj [(''input_path'', JStr ''a.png''), (''output_path'', JStr ''OUT.JPG''),
              (''payload_hex'', JStr ''48656C6c'')]),
      (embed_missing_arg,
        JObj [(''input_path'', JStr ''missing.png''), (''output_path'', JStr ''b.png''),
              (''payload_hex'', JStr ''00'')]),
      (embed_unwritable_arg,
        JObj [(''input_path'', JStr ''a.png''), (''output_path'', JStr ''/nonexistent/b.png''),
              (''payload_hex'', JStr ''48656c6c6f21202020'')]),
      (detect_arg, JObj [(''input_path'', JStr ''b.png'')]),
      (detect_len_arg, JObj [(''input_path'', JStr ''b.png''), (''payload_length'', JInt 9)]),
      (detect_16_arg, JObj [(''input_path'', JStr ''b.png''), (''payload_length'', JInt 16)]),
      (detect_missing_arg, JObj [(''input_path'', JStr ''missing.png'')])]"

definition sample_loads :: "string \<Rightarrow> py_exception + json" where
  "sample_loads s =
     (case map_of sample_table s of
        Some v \<Rightarrow> Inr v
      | None \<Rightarrow> Inl (PyExc ''JSONDecodeError'' ''Expecting value: line 1 column 1 (char 0)''))"

definition sample_env :: "nat env" where
  "sample_env = \<lparr>
     json_loads = sample_loads,
     py_import = (\<lambda>_. None),
     py_str = (\<lambda>_. ''?''),
     float_mul = (\<lambda>x _. x),
     imread = (\<lambda>p. if p = JStr ''a.png'' then Inr (Some 0)
                    else if p = JStr ''b.png'' then Inr (Some 1) else Inr None),
     imwrite = (\<lambda>p _ _. Inr (p \<noteq> JStr ''/nonexistent/b.png'')),
     new_encoder = None,
     set_watermark = (\<lambda>_ _. None),
     wm_encode = (\<lambda>_ img _. Inr (Suc img)),
     new_decoder = (\<lambda>_ _. None),
     wm_decode = (\<lambda>(_, bits) _ _.
        if bits = JInt 72 then Inr [0x48, 0x65, 0x6c, 0x6c, 0x6f, 0x21, 0x20, 0x20, 0x20]
        else if bits = JInt 128
        then Inr [0x48, 0x65, 0x6c, 0x6c, 0x6f, 0x21, 0x20, 0x20, 0x20, 0x20, 0x20, 0x20,
                  0x20, 0x20, 0x20, 0x20]
        else Inl (PyExc ''ValueError'' ''unsupported watermark length''))
   \<rparr>"

section \<open>Rules for running the scripts\<close>

lemma andthen_assoc: "andthen (andthen m f) g = andthen m (\<lambda>x. andthen (f x) g)"
  by (simp add: andthen_def split: prod.splits sum.splits)

lemma andthen_Inr: "andthen (tr, Inr x) f = (tr @ fst (f x), snd (f x))"
  by (simp add: andthen_def split: prod.splits)

lemma andthen_Inl: "andthen (tr, Inl a) f = (tr, Inl a)"
  by (simp add: andthen_def)

lemma andthen_expr:
  "andthen (expr r) f = (case r of Inl e \<Rightarrow> ([], Inl (Raise e)) | Inr x \<Rightarrow> f x)"
  by (simp add: andthen_def expr_def raising_def split: sum.splits prod.splits)

lemma andthen_stmt:
  "andthen (stmt r) f = (case r of Some e \<Rightarrow> ([], Inl (Raise e)) | None \<Rightarrow> f ())"
  by (simp add: andthen_def stmt_def raising_opt_def split: option.splits prod.splits)

lemma andthen_call:
  "andthen (call ev r) f =
     (case r of Inl e \<Rightarrow> ([ev], Inl (Raise e)) | Inr x \<Rightarrow> (ev # fst (f x), snd (f x)))"
  by (simp add: andthen_def call_def raising_def split: sum.splits prod.splits)

lemma andthen_call_stmt:
  "andthen (call_stmt ev r) f =
     (case r of Some e \<Rightarrow> ([ev], Inl (Raise e)) | None \<Rightarrow> (ev # fst (f ()), snd (f ())))"
  by (simp add: andthen_def call_stmt_def raising_opt_def split: option.splits prod.splits)

lemmas body_simps = main_embed_def main_detect_def embed_try_def detect_try_def
  write_output_def handler_def andthen_assoc andthen_Inr andthen_Inl
  andthen_expr andthen_stmt andthen_call andthen_call_stmt print_json_def sys_exit_def

subsection \<open>What a run prints\<close>

lemma stdout_simps:
  "stdout [] = []"
  "stdout (Print v # tr) = v # stdout tr"
  "stdout (ImRead x # tr) = stdout tr"
  "stdout (NewEncoder # tr) = stdout tr"
  "stdout (SetWatermark m b # tr) = stdout tr"
  "stdout (Encode st i me # tr) = stdout tr"
  "stdout (ImWrite q w opts # tr) = stdout tr"
  "stdout (NewDecoder m x # tr) = stdout tr"
  "stdout (Decode dec i me # tr) = stdout tr"
  by (simp_all add: stdout_def)

lemma py_lower_Inr: "py_lower v = Inr l \<Longrightarrow> \<exists>s. v = JStr s \<and> l = lower s"
  by (auto simp add: py_lower_def split: json.splits)

lemma py_get_JObj:
  "py_get (JObj kvs) key d = Inr (case map_of kvs key of Some x \<Rightarrow> x | None \<Rightarrow> d)"
  by (simp add: py_get_def)

lemma error_object_eq: "error_object a = error_object b \<longleftrightarrow> a = b"
  by (simp add: error_object_def)

lemma embed_try_result:
  "case embed_try env argv of
     (tr, Inr _) \<Rightarrow> stdout tr = [ok_object]
   | (tr, Inl (Raise e)) \<Rightarrow> stdout tr = []
   | (tr, Inl (SysExit n)) \<Rightarrow> n = 1 \<and> (\<exists>msg. stdout tr = [error_object msg])"
  by (simp add: embed_try_def write_output_def andthen_assoc andthen_Inr andthen_Inl
      andthen_expr andthen_stmt andthen_call andthen_call_stmt print_json_def sys_exit_def
      stdout_simps error_object_eq split: sum.splits option.splits)

lemma detect_try_result:
  "case detect_try env argv of
     (tr, Inr _) \<Rightarrow>
       (\<exists>dec img payload.
          Decode dec img ''dwtDctSvd'' \<in> set tr
          \<and> wm_decode env dec img ''dwtDctSvd'' = Inr payload
          \<and> stdout tr = [ok_payload_object (hex payload)])
   | (tr, Inl (Raise e)) \<Rightarrow> stdout tr = []
   | (tr, Inl (SysExit n)) \<Rightarrow> n = 1 \<and> (\<exists>msg. stdout tr = [error_object msg])"
  by (simp add: detect_try_def andthen_assoc andthen_Inr andthen_Inl
      andthen_expr andthen_stmt andthen_call andthen_call_stmt print_json_def sys_exit_def
      stdout_simps error_object_eq split: sum.splits option.splits)

lemma stdout_append: "stdout (xs @ ys) = stdout xs @ stdout ys"
  by (simp add: stdout_def List.map_filter_def)

lemma one_object_embed:
  "\<exists>v. stdout (fst (main_embed env argv)) = [v]
      \<and> ((v = ok_object \<and> snd (main_embed env argv) = 0)
         \<or> (\<exists>msg. v = error_object msg \<and> snd (main_embed env argv) = 1))"
proof -
  obtain tr r where e: "embed_try env argv = (tr, r)" by (cases "embed_try env argv")
  from embed_try_result [of env argv] e show ?thesis
    by (auto simp add: main_embed_def handler_def stdout_append stdout_simps split: sum.splits abort.splits)
qed

lemma one_object_detect:
  "\<exists>v. stdout (fst (main_detect env argv)) = [v]
      \<and> ((\<exists>h. v = ok_payload_object h \<and> snd (main_detect env argv) = 0)
         \<or> (\<exists>msg. v = error_object msg \<and> snd (main_detect env argv) = 1))"
proof -
  obtain tr r where e: "detect_try env argv = (tr, r)" by (cases "detect_try env argv")
  from detect_try_result [of env argv] e show ?thesis
    by (auto simp add: main_detect_def handler_def stdout_append stdout_simps split: sum.splits abort.splits)
qed

subsection \<open>Suffixes, extensions and letter case\<close>

lemma endswith_iff: "endswith s suf \<longleftrightarrow> (\<exists>zs. s = zs @ suf)"
proof
  assume "endswith s suf"
  then have "s = take (length s - length suf) s @ suf"
    by (metis append_take_drop_id endswith_def)
  then show "\<exists>zs. s = zs @ suf" ..
next
  assume "\<exists>zs. s = zs @ suf"
  then show "endswith s suf" by (auto simp add: endswith_def)
qed

lemma spec_extension_append:
  assumes "CHR ''.'' \<notin> set t"
  shows "spec_extension (zs @ CHR ''.'' # t) = CHR ''.'' # t"
proof -
  have "takeWhile (\<lambda>c. c \<noteq> CHR ''.'') (rev t @ CHR ''.'' # rev zs) = rev t"
    using assms by (subst takeWhile_append2) auto
  then show ?thesis by (simp add: spec_extension_def)
qed

lemma spec_extension_endswith:
  assumes "CHR ''.'' \<notin> set t"
  shows "endswith s (CHR ''.'' # t) \<longleftrightarrow> spec_extension s = CHR ''.'' # t"
proof
  assume "endswith s (CHR ''.'' # t)"
  then obtain zs where "s = zs @ CHR ''.'' # t" by (auto simp add: endswith_iff)
  with assms show "spec_extension s = CHR ''.'' # t" by (simp add: spec_extension_append)
next
  assume e: "spec_extension s = CHR ''.'' # t"
  then have "CHR ''.'' \<in> set s" by (auto simp add: spec_extension_def split: if_splits)
  then obtain ys zs where s: "s = ys @ CHR ''.'' # zs" and z: "CHR ''.'' \<notin> set zs"
    by (auto dest: split_list_last)
  from z have "spec_extension s = CHR ''.'' # zs" by (simp add: s spec_extension_append)
  with e have "zs = t" by simp
  with s show "endswith s (CHR ''.'' # t)" by (auto simp add: endswith_iff)
qed

lemma of_char_lower_char:
  "(of_char (lower_char c) :: nat) =
     (if 65 \<le> (of_char c :: nat) \<and> (of_char c :: nat) \<le> 90 then of_char c + 32 else of_char c)"
  by (simp add: lower_char_def)

lemma lower_char_dot: "lower_char c = CHR ''.'' \<longleftrightarrow> c = CHR ''.''"
proof -
  have "lower_char c = CHR ''.'' \<longleftrightarrow> (of_char (lower_char c) :: nat) = of_char CHR ''.''"
    by (simp only: of_char_eq_iff)
  also have "\<dots> \<longleftrightarrow> (of_char c :: nat) = of_char CHR ''.''"
    by (simp add: of_char_lower_char)
  also have "\<dots> \<longleftrightarrow> c = CHR ''.''"
    by (simp only: of_char_eq_iff)
  finally show ?thesis .
qed

lemma spec_extension_lower: "spec_extension (lower s) = lower (spec_extension s)"
proof -
  have "(\<lambda>c. c \<noteq> CHR ''.'') \<circ> lower_char = (\<lambda>c. c \<noteq> CHR ''.'')"
    by (simp add: fun_eq_iff lower_char_dot)
  moreover have "CHR ''.'' \<in> set (map lower_char s) \<longleftrightarrow> CHR ''.'' \<in> set s"
  proof
    assume "CHR ''.'' \<in> set (map lower_char s)"
    then obtain x where "x \<in> set s" "lower_char x = CHR ''.''" by auto
    then show "CHR ''.'' \<in> set s" by (simp add: lower_char_dot)
  next
    assume "CHR ''.'' \<in> set s"
    moreover have "lower_char CHR ''.'' = CHR ''.''" by (simp add: lower_char_dot)
    ultimately show "CHR ''.'' \<in> set (map lower_char s)" by force
  qed
  moreover have "lower_char CHR ''.'' = CHR ''.''" by (simp add: lower_char_dot)
  ultimately show ?thesis
    by (simp add: spec_extension_def lower_def rev_map takeWhile_map)
qed

lemma write_options_spec:
  "write_options (lower s) q = spec_encoding_options (lower (spec_extension s)) q"
proof -
  have "endswith (lower s) (CHR ''.'' # t) \<longleftrightarrow> lower (spec_extension s) = CHR ''.'' # t"
    if "CHR ''.'' \<notin> set t" for t
    using that by (simp add: spec_extension_endswith spec_extension_lower)
  from this [of "''jpg''"] this [of "''jpeg''"] this [of "''png''"] this [of "''webp''"]
  show ?thesis by (simp add: write_options_def spec_encoding_options_def)
qed

subsection \<open>Hexadecimal digits and bytes\<close>

lemma hex_digit_lower: "hex_digit (lower_char c) = hex_digit c"
  by (auto simp add: hex_digit_def of_char_lower_char Let_def)

lemma is_space_lower: "is_space (lower_char c) = is_space c"
  by (auto simp add: is_space_def of_char_lower_char)

lemma first_non_ascii_lower:
  "first_non_ascii i (map lower_char s) = first_non_ascii i s"
  by (induction s arbitrary: i) (auto simp add: of_char_lower_char)

lemma fromhex_from_lower: "fromhex_from i (map lower_char s) = fromhex_from i s"
  by (induction i s rule: fromhex_from.induct)
     (auto simp add: hex_digit_lower is_space_lower split: option.splits)

lemma fromhex_lower: "fromhex (lower s) = fromhex s"
  by (simp add: fromhex_def lower_def first_non_ascii_lower fromhex_from_lower
      split: option.splits)

lemma hex_digit_ascii:
  assumes "hex_digit c \<noteq> None"
  shows "(of_char c :: nat) < 128"
  using assms by (auto simp add: hex_digit_def Let_def split: if_splits)

lemma first_non_ascii_digits:
  assumes "\<forall>c \<in> set s. hex_digit c \<noteq> None"
  shows "first_non_ascii i s = None"
  using assms
proof (induction s arbitrary: i)
  case Nil
  then show ?case by simp
next
  case (Cons c cs)
  then have "(of_char c :: nat) < 128" by (simp add: hex_digit_ascii)
  with Cons show ?case by simp
qed

lemma hex_char_digit:
  assumes "n < 16"
  shows "hex_digit (hex_char n) = Some n \<and> \<not> is_space (hex_char n)
         \<and> lower_char (hex_char n) = hex_char n"
proof -
  from assms have "n \<in> {0, 1, 2, 3, 4, 5, 6, 7, 8, 9, 10, 11, 12, 13, 14, 15}"
    by simp arith
  then show ?thesis
    by (elim insertE emptyE) (simp_all add: hex_char_def hex_digit_def is_space_def lower_char_def)
qed


lemma nibbles_of_byte: "(of_nat (unat b div 16 * 16 + unat b mod 16) :: byte) = b"
  by simp

lemma hex_Cons:
  "hex (b # bs) = hex_char (unat b div 16) # hex_char (unat b mod 16) # hex bs"
  by (simp add: hex_def)

lemma fromhex_from_hex: "fromhex_from i (hex bs) = Inr bs"
proof (induction bs arbitrary: i)
  case Nil
  then show ?case by (simp add: hex_def)
next
  case (Cons b bs)
  have "unat b < 256" using unsigned_less [of b, where 'a = nat] by simp
  then have d: "unat b div 16 < 16" and m: "unat b mod 16 < 16" by simp_all
  note hex_Cons [of b bs]
  with Cons [of "i + 2"] hex_char_digit [OF d] hex_char_digit [OF m] show ?case
    by (simp add: nibbles_of_byte)
qed

lemma hex_digits: "\<forall>c \<in> set (hex bs). hex_digit c \<noteq> None"
proof (induction bs)
  case Nil
  then show ?case by (simp add: hex_def)
next
  case (Cons b bs)
  have "unat b < 256" using unsigned_less [of b, where 'a = nat] by simp
  then have d: "unat b div 16 < 16" and m: "unat b mod 16 < 16" by simp_all
  with Cons hex_char_digit [OF d] hex_char_digit [OF m] show ?case
    by (simp add: hex_Cons)
qed

lemma fromhex_hex: "fromhex (hex bs) = Inr bs"
  by (simp add: fromhex_def first_non_ascii_digits [OF hex_digits] fromhex_from_hex)




text \<open>\<^verbatim>\<open>bytes.fromhex\<close> on a few strings, with the answers of CPython 3.11.\<close>

lemma fromhex_examples:
  "fromhex ''48 65 6C6c '' = Inr [0x48, 0x65, 0x6c, 0x6c]"
  "fromhex [] = Inr []"
  "fromhex ''zz'' = Inl (PyExc ''ValueError''
     ''non-hexadecimal number found in fromhex() arg at position 0'')"
  "fromhex ''4 8'' = Inl (PyExc ''ValueError''
     ''non-hexadecimal number found in fromhex() arg at position 1'')"
  "fromhex ''abc'' = Inl (PyExc ''ValueError''
     ''non-hexadecimal number found in fromhex() arg at position 3'')"
  "fromhex ''0123456789abz'' = Inl (PyExc ''ValueError''
     ''non-hexadecimal number found in fromhex() arg at position 12'')"
  "fromhex (''zz'' @ [CHR 0xC3, CHR 0xA9]) = Inl (PyExc ''ValueError''
     ''non-hexadecimal number found in fromhex() arg at position 2'')"
  "bytes_fromhex JNull = Inl (PyExc ''TypeError'' ''fromhex() argument must be str, not None'')"
  "bytes_fromhex (JInt 5) = Inl (PyExc ''TypeError'' ''fromhex() argument must be str, not int'')"
  by code_simp+

text \<open>The texts of the other exceptions raised by the built-in operations.\<close>

lemma exception_examples:
  "py_getitem (JStr ''abc'') ''input_path''
     = Inl (PyExc ''TypeError'' (''string indices must be integers, not '' @ quoted ''str''))"
  "py_getitem (JArr [JInt 1]) ''input_path''
     = Inl (PyExc ''TypeError'' ''list indices must be integers or slices, not str'')"
  "py_getitem JNull ''input_path''
     = Inl (PyExc ''TypeError'' (quoted ''NoneType'' @ '' object is not subscriptable''))"
  "py_getitem (JObj []) ''input_path'' = Inl (PyExc ''KeyError'' (quoted ''input_path''))"
  "list_index [''embed_watermark.py''] 1
     = Inl (PyExc ''IndexError'' ''list index out of range'')"
  "py_lower (JInt 5)
     = Inl (PyExc ''AttributeError''
         (quoted ''int'' @ '' object has no attribute '' @ quoted ''lower''))"
  by code_simp+

subsection \<open>Runs in the sample world\<close>

lemma sample_embed_run:
  "main_embed sample_env [''embed_watermark.py'', embed_arg] =
     ([ImRead (JStr ''a.png''), NewEncoder,
       SetWatermark ''bytes'' [0x48, 0x65, 0x6c, 0x6c, 0x6f, 0x21, 0x20, 0x20, 0x20],
       Encode (''bytes'', [0x48, 0x65, 0x6c, 0x6c, 0x6f, 0x21, 0x20, 0x20, 0x20]) 0 ''dwtDctSvd'',
       ImWrite (JStr ''b.png'') 1 [(IMWRITE_PNG_COMPRESSION, JInt 3)],
       Print (JObj [(''status'', JStr ''ok'')])], 0)"
  by code_simp

lemma sample_jpg_run:
  "main_embed sample_env [''embed_watermark.py'', embed_jpg_arg] =
     ([ImRead (JStr ''a.png''), NewEncoder,
       SetWatermark ''bytes'' [0x48, 0x65, 0x6c, 0x6c],
       Encode (''bytes'', [0x48, 0x65, 0x6c, 0x6c]) 0 ''dwtDctSvd'',
       ImWrite (JStr ''OUT.JPG'') 1 [(IMWRITE_JPEG_QUALITY, JInt 92)],
       Print (JObj [(''status'', JStr ''ok'')])], 0)"
  by code_simp

lemma sample_unwritable_run:
  "main_embed sample_env [''embed_watermark.py'', embed_unwritable_arg] =
     ([ImRead (JStr ''a.png''), NewEncoder,
       SetWatermark ''bytes'' [0x48, 0x65, 0x6c, 0x6c, 0x6f, 0x21, 0x20, 0x20, 0x20],
       Encode (''bytes'', [0x48, 0x65, 0x6c, 0x6c, 0x6f, 0x21, 0x20, 0x20, 0x20]) 0 ''dwtDctSvd'',
       ImWrite (JStr ''/nonexistent/b.png'') 1 [(IMWRITE_PNG_COMPRESSION, JInt 3)],
       Print (JObj [(''status'', JStr ''ok'')])], 0)"
  by code_simp

lemma sample_embed_missing_run:
  "main_embed sample_env [''embed_watermark.py'', embed_missing_arg] =
     ([ImRead (JStr ''missing.png''),
       Print (JObj [(''status'', JStr ''error''),
                    (''message'', JStr ''Failed to read image: missing.png'')])], 1)"
  by code_simp

lemma sample_detect_missing_run:
  "main_detect sample_env [''detect_watermark.py'', detect_missing_arg] =
     ([ImRead (JStr ''missing.png''),
       Print (JObj [(''status'', JStr ''error''),
                    (''message'', JStr ''Failed to read image: missing.png'')])], 1)"
  by code_simp

lemma sample_detect_run:
  "main_detect sample_env [''detect_watermark.py'', detect_arg] =
     ([ImRead (JStr ''b.png''), NewDecoder ''bytes'' (JInt 128),
       Decode (''bytes'', JInt 128) 1 ''dwtDctSvd'',
       Print (JObj [(''status'', JStr ''ok''),
                    (''payload_hex'', JStr ''48656c6c6f2120202020202020202020'')])], 0)"
  by code_simp


lemma sample_detect_len_run:
  "main_detect sample_env [''detect_watermark.py'', detect_len_arg] =
     ([ImRead (JStr ''b.png''), NewDecoder ''bytes'' (JInt 72),
       Decode (''bytes'', JInt 72) 1 ''dwtDctSvd'',
       Print (JObj [(''status'', JStr ''ok''),
                    (''payload_hex'', JStr ''48656c6c6f21202020'')])], 0)"
  by code_simp

lemma sample_loads_simps:
  "json_loads sample_env embed_arg =
     Inr (JObj [(''input_path'', JStr ''a.png''), (''output_path'', JStr ''b.png''),
                (''payload_hex'', JStr ''48656c6c6f21202020'')])"
  "json_loads sample_env embed_jpg_arg =
     Inr (JObj [(''input_path'', JStr ''a.png''), (''output_path'', JStr ''OUT.JPG''),
                (''payload_hex'', JStr ''48656C6c'')])"
  "json_loads sample_env detect_arg = Inr (JObj [(''input_path'', JStr ''b.png'')])"
  "json_loads sample_env detect_16_arg =
     Inr (JObj [(''input_path'', JStr ''b.png''), (''payload_length'', JInt 16)])"
  by code_simp+

lemma sample_try_runs:
  "snd (embed_try sample_env [''embed_watermark.py'', embed_arg]) = Inr ()"
  "snd (detect_try sample_env [''detect_watermark.py'', detect_len_arg]) = Inr ()"
  by code_simp+

section \<open>Properties\<close>

text \<open>
  C1. Claimed: when the write of the output file fails, the embedder prints the failure
  object and exits with 1. \<^verbatim>\<open>cv2.imwrite\<close> reports an unwritable path by returning
  \<^verbatim>\<open>False\<close>, and lines 33 to 40 discard that value (the \<^verbatim>\<open>None\<close> of \<^verbatim>\<open>cv2.imread\<close> is
  checked on line 22). In the sample world the output path \<^verbatim>\<open>/nonexistent/b.png\<close> cannot
  be written: the run below still prints the success object and exits with 0.
\<close>

theorem unwritable_output_reports_ok:
  "imwrite sample_env (JStr ''/nonexistent/b.png'') 1 [(IMWRITE_PNG_COMPRESSION, JInt 3)]
     = Inr False
   \<and> main_embed sample_env [''embed_watermark.py'', embed_unwritable_arg] =
     ([ImRead (JStr ''a.png''), NewEncoder,
       SetWatermark ''bytes'' [0x48, 0x65, 0x6c, 0x6c, 0x6f, 0x21, 0x20, 0x20, 0x20],
       Encode (''bytes'', [0x48, 0x65, 0x6c, 0x6c, 0x6f, 0x21, 0x20, 0x20, 0x20]) 0 ''dwtDctSvd'',
       ImWrite (JStr ''/nonexistent/b.png'') 1 [(IMWRITE_PNG_COMPRESSION, JInt 3)],
       Print (JObj [(''status'', JStr ''ok'')])], 0)"
  by (simp add: sample_unwritable_run) (simp add: sample_env_def)

text \<open>
  C2. Claimed: every invocation prints exactly one JSON object and exits with 0 on
  success and with 1 on any failure. The first half holds (\<open>one_object_embed\<close>,
  \<open>one_object_detect\<close>: one object per run, the success object with exit code 0 or the
  failure object with exit code 1, for every environment and argument list). The second
  half fails where C1 fails: whenever \<^verbatim>\<open>cv2.imwrite\<close> is reached and returns \<^verbatim>\<open>False\<close>,
  the exit code is 0 and the one object printed is the success object.
\<close>

theorem failed_write_exits_zero:
  assumes "ImWrite p w opts \<in> set (fst (main_embed env argv))"
    and "imwrite env p w opts = Inr False"
  shows "snd (main_embed env argv) = 0 \<and> stdout (fst (main_embed env argv)) = [ok_object]"
  using assms
  by (auto simp add: body_simps stdout_simps split: sum.split_asm option.split_asm)

theorem failed_write_exits_zero_witness:
  "imwrite sample_env (JStr ''/nonexistent/b.png'') 1 [(IMWRITE_PNG_COMPRESSION, JInt 3)]
     = Inr False
   \<and> snd (main_embed sample_env [''embed_watermark.py'', embed_unwritable_arg]) = 0
   \<and> stdout (fst (main_embed sample_env [''embed_watermark.py'', embed_unwritable_arg]))
       = [JObj [(''status'', JStr ''ok'')]]"
proof -
  have w: "ImWrite (JStr ''/nonexistent/b.png'') 1 [(IMWRITE_PNG_COMPRESSION, JInt 3)]
      \<in> set (fst (main_embed sample_env [''embed_watermark.py'', embed_unwritable_arg]))"
    by (simp add: sample_unwritable_run)
  have f: "imwrite sample_env (JStr ''/nonexistent/b.png'') 1
      [(IMWRITE_PNG_COMPRESSION, JInt 3)] = Inr False"
    by (simp add: sample_env_def)
  from failed_write_exits_zero [OF w f] f show ?thesis
    by (simp add: ok_object_def)
qed

text \<open>
  C3. Whenever the embedder calls \<^verbatim>\<open>cv2.imwrite\<close>, the path is a string and the options
  are those of the specification's table for the extension of that path, compared
  without regard to case, with the configured quality \<^verbatim>\<open>args.get("jpeg_quality", 92)\<close>:
  quality for \<^verbatim>\<open>.jpg\<close> and \<^verbatim>\<open>.jpeg\<close>, compression 3 for \<^verbatim>\<open>.png\<close>, quality for
  \<^verbatim>\<open>.webp\<close>, no option otherwise.
\<close>

theorem extension_dispatch:
  assumes "list_index argv 1 = Inr arg" and "json_loads env arg = Inr (JObj kvs)"
    and "ImWrite p w opts \<in> set (fst (main_embed env argv))"
  shows "\<exists>s. p = JStr s \<and> map_of kvs ''output_path'' = Some (JStr s)
     \<and> opts = spec_encoding_options (lower (spec_extension s))
                (case map_of kvs ''jpeg_quality'' of Some q \<Rightarrow> q | None \<Rightarrow> JInt 92)"
  using assms
  by (auto simp add: body_simps py_get_JObj py_getitem_def write_options_spec
      dest!: py_lower_Inr split: sum.split_asm option.split_asm)

theorem extension_dispatch_witness:
  "ImWrite (JStr ''OUT.JPG'') 1 [(IMWRITE_JPEG_QUALITY, JInt 92)]
     \<in> set (fst (main_embed sample_env [''embed_watermark.py'', embed_jpg_arg]))
   \<and> [(IMWRITE_JPEG_QUALITY, JInt 92)]
       = spec_encoding_options (lower (spec_extension ''OUT.JPG'')) (JInt 92)
   \<and> lower (spec_extension ''OUT.JPG'') = ''.jpg''"
proof -
  have a: "list_index [''embed_watermark.py'', embed_jpg_arg] 1 = Inr embed_jpg_arg"
    by (simp add: list_index_def)
  have w: "ImWrite (JStr ''OUT.JPG'') 1 [(IMWRITE_JPEG_QUALITY, JInt 92)]
      \<in> set (fst (main_embed sample_env [''embed_watermark.py'', embed_jpg_arg]))"
    by (simp add: sample_jpg_run)
  have l: "lower (spec_extension ''OUT.JPG'') = ''.jpg''"
    by code_simp
  from extension_dispatch [OF a sample_loads_simps(2) w] w l show ?thesis
    by simp
qed





text \<open>
  C6. When \<^verbatim>\<open>cv2.imread\<close> is called on the path \<open>p\<close> and returns \<^verbatim>\<open>None\<close>, each utility
  prints one object, with \<^verbatim>\<open>status\<close> \<^verbatim>\<open>error\<close> and as \<^verbatim>\<open>message\<close> the text
  \<^verbatim>\<open>Failed to read image: \<close> followed by \<open>p\<close>, prints nothing else, makes no further
  library call and exits with code 1.
\<close>

theorem unreadable_image_is_reported:
  assumes "imread env (JStr p) = Inr None"
  shows "(ImRead (JStr p) \<in> set (fst (main_embed env argv)) \<longrightarrow>
           main_embed env argv =
             ([ImRead (JStr p),
               Print (JObj [(''status'', JStr ''error''),
                            (''message'', JStr (''Failed to read image: '' @ p))])], 1))
       \<and> (ImRead (JStr p) \<in> set (fst (main_detect env argv')) \<longrightarrow>
           main_detect env argv' =
             ([ImRead (JStr p),
               Print (JObj [(''status'', JStr ''error''),
                            (''message'', JStr (''Failed to read image: '' @ p))])], 1))"
  using assms
  by (auto simp add: body_simps py_format_def error_object_def
      split: sum.split_asm option.split_asm)

theorem unreadable_image_is_reported_witness:
  "imread sample_env (JStr ''missing.png'') = Inr None
   \<and> ImRead (JStr ''missing.png'')
       \<in> set (fst (main_embed sample_env [''embed_watermark.py'', embed_missing_arg]))
   \<and> main_embed sample_env [''embed_watermark.py'', embed_missing_arg] =
       ([ImRead (JStr ''missing.png''),
         Print (JObj [(''status'', JStr ''error''),
                      (''message'', JStr ''Failed to read image: missing.png'')])], 1)
   \<and> ImRead (JStr ''missing.png'')
       \<in> set (fst (main_detect sample_env [''detect_watermark.py'', detect_missing_arg]))
   \<and> main_detect sample_env [''detect_watermark.py'', detect_missing_arg] =
       ([ImRead (JStr ''missing.png''),
         Print (JObj [(''status'', JStr ''error''),
                      (''message'', JStr ''Failed to read image: missing.png'')])], 1)"
proof -
  have r: "imread sample_env (JStr ''missing.png'') = Inr None"
    by (simp add: sample_env_def)
  have e: "ImRead (JStr ''missing.png'')
      \<in> set (fst (main_embed sample_env [''embed_watermark.py'', embed_missing_arg]))"
    by (simp add: sample_embed_missing_run)
  have d: "ImRead (JStr ''missing.png'')
      \<in> set (fst (main_detect sample_env [''detect_watermark.py'', detect_missing_arg]))"
    by (simp add: sample_detect_missing_run)
  have m: "''Failed to read image: '' @ ''missing.png'' = ''Failed to read image: missing.png''"
    by simp
  from unreadable_image_is_reported [OF r,
      where argv = "[''embed_watermark.py'', embed_missing_arg]"
        and argv' = "[''detect_watermark.py'', detect_missing_arg]"] e d
  have "main_embed sample_env [''embed_watermark.py'', embed_missing_arg] =
       ([ImRead (JStr ''missing.png''),
         Print (JObj [(''status'', JStr ''error''),
                      (''message'', JStr ''Failed to read image: missing.png'')])], 1)
    \<and> main_detect sample_env [''detect_watermark.py'', detect_missing_arg] =
       ([ImRead (JStr ''missing.png''),
         Print (JObj [(''status'', JStr ''error''),
                      (''message'', JStr ''Failed to read image: missing.png'')])], 1)"
    unfolding m by blast
  with r e d show ?thesis by blast
qed

text \<open>
  C7. When the argument object has no \<^verbatim>\<open>jpeg_quality\<close>, every \<^verbatim>\<open>cv2.imwrite\<close> call of the
  embedder takes its options from the dispatch with quality 92. When it has no
  \<^verbatim>\<open>payload_length\<close>, every decoder the detector constructs is given \<open>16 * 8\<close> bits.
\<close>

theorem optional_fields_default:
  assumes "list_index argv 1 = Inr arg" and "json_loads env arg = Inr (JObj kvs)"
    and "list_index argv' 1 = Inr arg'" and "json_loads env arg' = Inr (JObj kvs')"
  shows "(map_of kvs ''jpeg_quality'' = None \<longrightarrow>
           (\<forall>p w opts. ImWrite p w opts \<in> set (fst (main_embed env argv)) \<longrightarrow>
              (\<exists>s. p = JStr s \<and> opts = write_options (lower s) (JInt 92))))
       \<and> (map_of kvs' ''payload_length'' = None \<longrightarrow>
           (\<forall>m v. NewDecoder m v \<in> set (fst (main_detect env argv')) \<longrightarrow>
              v = JInt (16 * 8)))"
  using assms
  by (auto simp add: body_simps py_get_JObj py_mul_def dest!: py_lower_Inr
      split: sum.split_asm option.split_asm)

theorem optional_fields_default_witness:
  "ImWrite (JStr ''OUT.JPG'') 1 [(IMWRITE_JPEG_QUALITY, JInt 92)]
     \<in> set (fst (main_embed sample_env [''embed_watermark.py'', embed_jpg_arg]))
   \<and> [(IMWRITE_JPEG_QUALITY, JInt 92)] = write_options (lower ''OUT.JPG'') (JInt 92)
   \<and> NewDecoder ''bytes'' (JInt 128)
     \<in> set (fst (main_detect sample_env [''detect_watermark.py'', detect_arg]))
   \<and> JInt 128 = JInt (16 * 8)"
proof -
  have a: "list_index [''embed_watermark.py'', embed_jpg_arg] 1 = Inr embed_jpg_arg"
    and a': "list_index [''detect_watermark.py'', detect_arg] 1 = Inr detect_arg"
    by (simp_all add: list_index_def)
  have k: "map_of [(''input_path'', JStr ''a.png''), (''output_path'', JStr ''OUT.JPG''),
                   (''payload_hex'', JStr ''48656C6c'')] ''jpeg_quality'' = None"
    and k': "map_of [(''input_path'', JStr ''b.png'')] ''payload_length'' = None"
    by simp_all
  have w: "ImWrite (JStr ''OUT.JPG'') 1 [(IMWRITE_JPEG_QUALITY, JInt 92)]
      \<in> set (fst (main_embed sample_env [''embed_watermark.py'', embed_jpg_arg]))"
    by (simp add: sample_jpg_run)
  have n: "NewDecoder ''bytes'' (JInt 128)
      \<in> set (fst (main_detect sample_env [''detect_watermark.py'', detect_arg]))"
    by (simp add: sample_detect_run)
  note t = optional_fields_default [OF a sample_loads_simps(2) a' sample_loads_simps(3)]
  from t k w have "\<exists>s. JStr ''OUT.JPG'' = JStr s
      \<and> [(IMWRITE_JPEG_QUALITY, JInt 92)] = write_options (lower s) (JInt 92)"
    by blast
  then have 1: "[(IMWRITE_JPEG_QUALITY, JInt 92)] = write_options (lower ''OUT.JPG'') (JInt 92)"
    by simp
  from t k' n have 2: "JInt 128 = JInt (16 * 8)"
    by blast
  from w n 1 2 show ?thesis by blast
qed

text \<open>
  C8. When the \<^verbatim>\<open>try\<close> block of the embedder runs to its end, the exit code is 0 and
  exactly one object is printed, \<^verbatim>\<open>{"status": "ok"}\<close> with no other field. When that of
  the detector runs to its end, the exit code is 0 and exactly one object is printed,
  with \<^verbatim>\<open>status\<close> \<^verbatim>\<open>ok\<close> and \<^verbatim>\<open>payload_hex\<close> the hexadecimal text of the bytes that the
  decode call returned.
\<close>

theorem success_output:
  "(snd (embed_try env argv) = Inr () \<longrightarrow>
      snd (main_embed env argv) = 0
      \<and> stdout (fst (main_embed env argv)) = [JObj [(''status'', JStr ''ok'')]])
   \<and> (snd (detect_try env argv') = Inr () \<longrightarrow>
      snd (main_detect env argv') = 0
      \<and> (\<exists>dec img payload.
            Decode dec img ''dwtDctSvd'' \<in> set (fst (main_detect env argv'))
            \<and> wm_decode env dec img ''dwtDctSvd'' = Inr payload
            \<and> stdout (fst (main_detect env argv'))
                = [JObj [(''status'', JStr ''ok''), (''payload_hex'', JStr (hex payload))]]))"
proof -
  obtain tr r where e: "embed_try env argv = (tr, r)" by (cases "embed_try env argv")
  obtain tr' r' where d: "detect_try env argv' = (tr', r')" by (cases "detect_try env argv'")
  from embed_try_result [of env argv] e
  have 1: "r = Inr () \<longrightarrow> stdout tr = [ok_object]" by auto
  from detect_try_result [of env argv'] d
  have 2: "r' = Inr () \<longrightarrow> (\<exists>dec img payload.
          Decode dec img ''dwtDctSvd'' \<in> set tr'
          \<and> wm_decode env dec img ''dwtDctSvd'' = Inr payload
          \<and> stdout tr' = [ok_payload_object (hex payload)])" by auto
  from 1 2 show ?thesis
    by (simp add: main_embed_def main_detect_def handler_def e d ok_object_def
        ok_payload_object_def)
qed

theorem success_output_witness:
  "snd (embed_try sample_env [''embed_watermark.py'', embed_arg]) = Inr ()
   \<and> snd (main_embed sample_env [''embed_watermark.py'', embed_arg]) = 0
   \<and> stdout (fst (main_embed sample_env [''embed_watermark.py'', embed_arg]))
       = [JObj [(''status'', JStr ''ok'')]]
   \<and> snd (detect_try sample_env [''detect_watermark.py'', detect_len_arg]) = Inr ()
   \<and> snd (main_detect sample_env [''detect_watermark.py'', detect_len_arg]) = 0
   \<and> stdout (fst (main_detect sample_env [''detect_watermark.py'', detect_len_arg]))
       = [JObj [(''status'', JStr ''ok''), (''payload_hex'', JStr ''48656c6c6f21202020'')]]"
proof -
  note t = success_output [where env = sample_env
      and argv = "[''embed_watermark.py'', embed_arg]"
      and argv' = "[''detect_watermark.py'', detect_len_arg]"]
  from t sample_try_runs(1)
  have 1: "snd (main_embed sample_env [''embed_watermark.py'', embed_arg]) = 0
    \<and> stdout (fst (main_embed sample_env [''embed_watermark.py'', embed_arg]))
        = [JObj [(''status'', JStr ''ok'')]]"
    by blast
  from t sample_try_runs(2)
  have 2: "snd (main_detect sample_env [''detect_watermark.py'', detect_len_arg]) = 0"
    by blast
  have 3: "stdout (fst (main_detect sample_env [''detect_watermark.py'', detect_len_arg]))
       = [JObj [(''status'', JStr ''ok''), (''payload_hex'', JStr ''48656c6c6f21202020'')]]"
    by (simp add: sample_detect_len_run stdout_simps)
  from 1 2 3 sample_try_runs show ?thesis by blast
qed

text \<open>
  C9. When the script is started without its positional argument, \<^verbatim>\<open>sys.argv[1]\<close>
  raises \<^verbatim>\<open>IndexError\<close> inside the \<^verbatim>\<open>try\<close> block. Both utilities then print exactly the
  failure object, with the text of that exception as message, and exit with code 1.
\<close>

theorem no_argument_is_reported:
  assumes "length argv \<le> 1"
  shows "main_embed env argv = ([Print (error_object ''list index out of range'')], 1)
       \<and> main_detect env argv = ([Print (error_object ''list index out of range'')], 1)"
  using assms by (simp add: body_simps list_index_def)

theorem no_argument_is_reported_witness:
  "length [''embed_watermark.py''] \<le> 1
   \<and> main_embed sample_env [''embed_watermark.py'']
       = ([Print (JObj [(''status'', JStr ''error''),
                        (''message'', JStr ''list index out of range'')])], 1)
   \<and> main_detect sample_env [''embed_watermark.py'']
       = ([Print (JObj [(''status'', JStr ''error''),
                        (''message'', JStr ''list index out of range'')])], 1)"
  using no_argument_is_reported [of "[''embed_watermark.py'']" sample_env]
  by (simp add: error_object_def)

text \<open>
  C10. The embedder calls \<^verbatim>\<open>cv2.imwrite\<close> only after every earlier step has succeeded:
  the argument was present and parsed, the three required fields were found, both
  imports worked, the image was read, \<^verbatim>\<open>payload_hex\<close> was decoded and the encoder was
  constructed, given the watermark and returned the watermarked image. The write is then
  the fifth outside call, after the read, the construction, \<^verbatim>\<open>set_watermark\<close> and
  \<^verbatim>\<open>encode\<close>. So a run in which one of these steps fails writes nothing.
\<close>

theorem write_only_after_embed:
  assumes "list_ex is_write (fst (main_embed env argv))"
  shows "\<exists>arg args ip op ph img bs w opts.
       list_index argv 1 = Inr arg \<and> json_loads env arg = Inr args
     \<and> py_getitem args ''input_path'' = Inr ip
     \<and> py_getitem args ''output_path'' = Inr op
     \<and> py_getitem args ''payload_hex'' = Inr ph
     \<and> py_import env ''cv2'' = None
     \<and> py_import env ''imwatermark.WatermarkEncoder'' = None
     \<and> imread env ip = Inr (Some img)
     \<and> bytes_fromhex ph = Inr bs
     \<and> new_encoder env = None
     \<and> set_watermark env ''bytes'' bs = None
     \<and> wm_encode env (''bytes'', bs) img ''dwtDctSvd'' = Inr w
     \<and> take 5 (fst (main_embed env argv)) =
         [ImRead ip, NewEncoder, SetWatermark ''bytes'' bs,
          Encode (''bytes'', bs) img ''dwtDctSvd'', ImWrite op w opts]
     \<and> \<not> list_ex is_write (take 4 (fst (main_embed env argv)))"
  using assms
  by (auto simp add: body_simps split: sum.split_asm option.split_asm)

theorem write_only_after_embed_witness:
  "list_ex is_write (fst (main_embed sample_env [''embed_watermark.py'', embed_arg]))
   \<and> take 5 (fst (main_embed sample_env [''embed_watermark.py'', embed_arg])) =
       [ImRead (JStr ''a.png''), NewEncoder,
        SetWatermark ''bytes'' [0x48, 0x65, 0x6c, 0x6c, 0x6f, 0x21, 0x20, 0x20, 0x20],
        Encode (''bytes'', [0x48, 0x65, 0x6c, 0x6c, 0x6f, 0x21, 0x20, 0x20, 0x20]) 0
          ''dwtDctSvd'',
        ImWrite (JStr ''b.png'') 1 [(IMWRITE_PNG_COMPRESSION, JInt 3)]]
   \<and> \<not> list_ex is_write (take 4 (fst (main_embed sample_env
         [''embed_watermark.py'', embed_arg])))"
proof -
  have w: "list_ex is_write (fst (main_embed sample_env [''embed_watermark.py'', embed_arg]))"
    by (simp add: sample_embed_run)
  from write_only_after_embed [OF w]
  have "\<not> list_ex is_write (take 4 (fst (main_embed sample_env
         [''embed_watermark.py'', embed_arg])))"
    by blast
  with w show ?thesis by (simp add: sample_embed_run)
qed

end
